theory Spec2Isabelle
  imports Main
begin

section \<open>Data model\<close>

text \<open>
  The picker (\<^verbatim>\<open>src/DateTimeRangePicker.tsx\<close>) works on JavaScript \<^verbatim>\<open>Date\<close> objects.
  A \<^verbatim>\<open>Date\<close> is modelled by its time value, the number of milliseconds since
  1970-01-01T00:00:00Z, an integer; \<^verbatim>\<open>null\<close> is \<open>None\<close>. The invalid date (time value
  NaN) is not part of the model.
\<close>

type_synonym Instant = int

type_synonym TimezoneId = string

text \<open>
  \<^verbatim>\<open>DateTimeRange\<close> of \<^verbatim>\<open>./types\<close>, as the component and its stories use it:
  \<^verbatim>\<open>{ start: Date | null, end: Date | null, timezone: string }\<close>.
\<close>

record DateTimeRange =
  start :: "Instant option"
  end' :: "Instant option"
  timezone :: TimezoneId

text \<open>
  \<^verbatim>\<open>Preset\<close> of \<^verbatim>\<open>./types\<close>: a label and \<^verbatim>\<open>getRange(now, tz)\<close>, which returns
  \<^verbatim>\<open>{ start, end }\<close> (here a pair).
\<close>

record Preset =
  label :: string
  getRange :: "Instant \<Rightarrow> TimezoneId \<Rightarrow> Instant \<times> Instant"

text \<open>The two time-of-day cells \<^verbatim>\<open>{ hour, minute }\<close> of the component.\<close>

record TimeOfDay =
  hour :: int
  minute :: int

text \<open>
  The \<^verbatim>\<open>useState\<close> cells the event handlers write: \<^verbatim>\<open>startTime\<close>, \<^verbatim>\<open>endTime\<close> and
  \<^verbatim>\<open>error\<close> (\<^verbatim>\<open>string | null\<close>; the type of the message is a parameter). The cells
  \<^verbatim>\<open>currentMonth\<close> and \<^verbatim>\<open>focusedDate\<close> only drive rendering and keyboard focus.
\<close>

record 'e PickerState =
  startTime :: TimeOfDay
  endTime :: TimeOfDay
  error :: "'e option"

datatype TimeType = Start | End

datatype TimeField = Hour | Minute

section \<open>The event handlers of the component\<close>

text \<open>\<^verbatim>\<open>isBefore(date, dateToCompare)\<close> of date-fns compares the two time values.\<close>

definition isBefore :: "Instant \<Rightarrow> Instant \<Rightarrow> bool" where
  "isBefore date dateToCompare = (date < dateToCompare)"

text \<open>
  The handlers call \<^verbatim>\<open>isDateDisabled\<close> and \<^verbatim>\<open>validateRange\<close> of \<^verbatim>\<open>./utils\<close>, a file
  that is not among the sources; the component passes its \<^verbatim>\<open>constraints\<close> prop through
  to them and never looks inside it. The handlers therefore take the two functions as
  arguments, and the type \<open>'c\<close> of the \<^verbatim>\<open>constraints\<close> prop is a parameter.

  A handler returns the new state cells and what it hands to \<^verbatim>\<open>onChange\<close>
  (\<open>None\<close>: \<^verbatim>\<open>onChange\<close> is not called).
\<close>

definition handleDateSelect ::
  "(Instant \<Rightarrow> 'c \<Rightarrow> TimezoneId \<Rightarrow> bool) \<Rightarrow>
   (Instant option \<Rightarrow> Instant option \<Rightarrow> 'c \<Rightarrow> 'e option) \<Rightarrow>
   'c \<Rightarrow> DateTimeRange \<Rightarrow> 'e PickerState \<Rightarrow> Instant \<Rightarrow>
   'e PickerState \<times> DateTimeRange option" where
  "handleDateSelect isDateDisabled validateRange constraints v st date =
     (if isDateDisabled date constraints (timezone v) then (st, None)
      else
        let (newStart, newEnd) =
              (if start v = None \<or> (start v \<noteq> None \<and> end' v \<noteq> None)
               then (Some date, None)
               else if (case start v of Some s \<Rightarrow> isBefore date s | None \<Rightarrow> False)
                    then (Some date, start v)
                    else (start v, Some date));
            validationError = validateRange newStart newEnd constraints
        in (st\<lparr>error := validationError\<rparr>,
            Some (v\<lparr>start := newStart, end' := newEnd\<rparr>)))"

text \<open>
  \<^verbatim>\<open>handlePresetSelect\<close>: \<^verbatim>\<open>now\<close> is \<^verbatim>\<open>new Date()\<close> at the click.
  The error cell is cleared; \<^verbatim>\<open>validateRange\<close> is not called.
\<close>

definition handlePresetSelect ::
  "Instant \<Rightarrow> DateTimeRange \<Rightarrow> 'e PickerState \<Rightarrow> Preset \<Rightarrow>
   'e PickerState \<times> DateTimeRange option" where
  "handlePresetSelect now v st preset =
     (let (s, e) = getRange preset now (timezone v)
      in (st\<lparr>error := None\<rparr>, Some (v\<lparr>start := Some s, end' := Some e\<rparr>)))"

text \<open>
  The \<^verbatim>\<open>onChange\<close> of the timezone \<^verbatim>\<open>select\<close>:
  \<^verbatim>\<open>onChange({ ...value, timezone: e.target.value })\<close>. No state cell is written.
\<close>

definition timezoneSelect_onChange ::
  "DateTimeRange \<Rightarrow> 'e PickerState \<Rightarrow> TimezoneId \<Rightarrow>
   'e PickerState \<times> DateTimeRange option" where
  "timezoneSelect_onChange v st tz = (st, Some (v\<lparr>timezone := tz\<rparr>))"

text \<open>
  \<^verbatim>\<open>handleTimeChange(type, field, val)\<close>. The three conversions are library code
  (\<^verbatim>\<open>utcToZonedTime\<close> and \<^verbatim>\<open>zonedTimeToUtc\<close> of date-fns-tz, \<^verbatim>\<open>Date.setHours\<close>) and
  are arguments; \<open>'w\<close> is the type of the zoned wall-clock date between them.
\<close>

definition setField :: "TimeOfDay \<Rightarrow> TimeField \<Rightarrow> int \<Rightarrow> TimeOfDay" where
  "setField t field val =
     (case field of Hour \<Rightarrow> t\<lparr>hour := val\<rparr> | Minute \<Rightarrow> t\<lparr>minute := val\<rparr>)"

definition handleTimeChange ::
  "(Instant \<Rightarrow> TimezoneId \<Rightarrow> 'w) \<Rightarrow> ('w \<Rightarrow> int \<Rightarrow> int \<Rightarrow> 'w) \<Rightarrow>
   ('w \<Rightarrow> TimezoneId \<Rightarrow> Instant) \<Rightarrow>
   (Instant option \<Rightarrow> Instant option \<Rightarrow> 'c \<Rightarrow> 'e option) \<Rightarrow>
   'c \<Rightarrow> DateTimeRange \<Rightarrow> 'e PickerState \<Rightarrow> TimeType \<Rightarrow> TimeField \<Rightarrow> int \<Rightarrow>
   'e PickerState \<times> DateTimeRange option" where
  "handleTimeChange utcToZonedTime setHours zonedTimeToUtc validateRange constraints
       v st ty field val =
     (let tz = timezone v;
          updatedTime = (if ty = Start then setField (startTime st) field val
                         else setField (endTime st) field val);
          st1 = (if ty = Start then st\<lparr>startTime := updatedTime\<rparr>
                 else st\<lparr>endTime := updatedTime\<rparr>);
          edit = (\<lambda>i. zonedTimeToUtc
                          (setHours (utcToZonedTime i tz) (hour updatedTime) (minute updatedTime))
                          tz);
          newValue =
            (case (ty, start v, end' v) of
               (Start, Some s, _) \<Rightarrow> v\<lparr>start := Some (edit s)\<rparr>
             | (End, _, Some e) \<Rightarrow> v\<lparr>end' := Some (edit e)\<rparr>
             | _ \<Rightarrow> v);
          validationError = validateRange (start newValue) (end' newValue) constraints
      in (st1\<lparr>error := validationError\<rparr>, Some newValue))"

text \<open>
  The Apply button: \<^verbatim>\<open>disabled={!!error || !value.start || !value.end}\<close>.
  An error message, when there is one, is taken to be a non-empty string.
\<close>

definition hasError :: "'e PickerState \<Rightarrow> bool" where
  "hasError st = (case error st of Some _ \<Rightarrow> True | None \<Rightarrow> False)"

definition applyDisabled :: "'e PickerState \<Rightarrow> DateTimeRange \<Rightarrow> bool" where
  "applyDisabled st v = (hasError st \<or> start v = None \<or> end' v = None)"

text \<open>The state cells of a freshly mounted component.\<close>

definition initialState :: "'e PickerState" where
  "initialState =
     \<lparr>startTime = \<lparr>hour = 0, minute = 0\<rparr>,
      endTime = \<lparr>hour = 23, minute = 59\<rparr>,
      error = None\<rparr>"

text \<open>
  The consumer of the stories (\<^verbatim>\<open>StatefulDateTimeRangePicker\<close>) stores what
  \<^verbatim>\<open>onChange\<close> receives and supplies it as the next \<^verbatim>\<open>value\<close>.
\<close>

definition nextValue :: "DateTimeRange \<Rightarrow> DateTimeRange option \<Rightarrow> DateTimeRange" where
  "nextValue v emitted = (case emitted of Some v' \<Rightarrow> v' | None \<Rightarrow> v)"

text \<open>
  The range after a date click and after a sequence of date clicks. What
  \<^verbatim>\<open>handleDateSelect\<close> hands to \<^verbatim>\<open>onChange\<close> does not depend on the state cells
  (lemma \<open>handleDateSelect_emits\<close>), so they are taken as mounted.
\<close>

definition selectDate ::
  "(Instant \<Rightarrow> 'c \<Rightarrow> TimezoneId \<Rightarrow> bool) \<Rightarrow>
   (Instant option \<Rightarrow> Instant option \<Rightarrow> 'c \<Rightarrow> 'e option) \<Rightarrow>
   'c \<Rightarrow> DateTimeRange \<Rightarrow> Instant \<Rightarrow> DateTimeRange" where
  "selectDate isDateDisabled validateRange constraints v date =
     nextValue v
       (snd (handleDateSelect isDateDisabled validateRange constraints v initialState date))"

fun selectDates ::
  "(Instant \<Rightarrow> 'c \<Rightarrow> TimezoneId \<Rightarrow> bool) \<Rightarrow>
   (Instant option \<Rightarrow> Instant option \<Rightarrow> 'c \<Rightarrow> 'e option) \<Rightarrow>
   'c \<Rightarrow> DateTimeRange \<Rightarrow> Instant list \<Rightarrow> DateTimeRange" where
  "selectDates isDateDisabled validateRange constraints v [] = v"
| "selectDates isDateDisabled validateRange constraints v (date # dates) =
     selectDates isDateDisabled validateRange constraints
       (selectDate isDateDisabled validateRange constraints v date) dates"

text \<open>The range after the timezone \<^verbatim>\<open>select\<close> changed.\<close>

definition changeTimezone :: "DateTimeRange \<Rightarrow> TimezoneId \<Rightarrow> DateTimeRange" where
  "changeTimezone v tz =
     nextValue v (snd (timezoneSelect_onChange v (initialState :: unit PickerState) tz))"

text \<open>The ordering of a range: when both ends are present, start is not after end.\<close>

definition ordered :: "DateTimeRange \<Rightarrow> bool" where
  "ordered v = (case (start v, end' v) of (Some s, Some e) \<Rightarrow> s \<le> e | _ \<Rightarrow> True)"

section \<open>Time zones and the calendar grid's leading blanks\<close>

text \<open>
  The time zone database belongs to the host (\<^verbatim>\<open>Intl\<close>); it is not code of the
  repository. A zone is what the database says about it: the offset from UTC, in
  milliseconds, in force at each instant. A database maps the identifiers to zones.
\<close>

type_synonym Zone = "Instant \<Rightarrow> int"

type_synonym TzDb = "TimezoneId \<Rightarrow> Zone"

text \<open>A calendar date is counted in days since 1970-01-01.\<close>

type_synonym CalendarDate = int

definition msPerDay :: int where
  "msPerDay = 86400000"

definition zonedDate :: "Zone \<Rightarrow> Instant \<Rightarrow> CalendarDate" where
  "zonedDate z i = (i + z i) div msPerDay"

datatype Weekday = Monday | Tuesday | Wednesday | Thursday | Friday | Saturday | Sunday

text \<open>1970-01-01 was a Thursday.\<close>

definition weekdayOf :: "CalendarDate \<Rightarrow> Weekday" where
  "weekdayOf d =
     (let r = d mod 7 in
      if r = 0 then Thursday else if r = 1 then Friday else if r = 2 then Saturday
      else if r = 3 then Sunday else if r = 4 then Monday else if r = 5 then Tuesday
      else Wednesday)"

definition zonedWeekday :: "Zone \<Rightarrow> Instant \<Rightarrow> Weekday" where
  "zonedWeekday z i = weekdayOf (zonedDate z i)"

text \<open>The Monday-first (ISO) index of a weekday.\<close>

fun isoIndex :: "Weekday \<Rightarrow> int" where
  "isoIndex Monday = 0"
| "isoIndex Tuesday = 1"
| "isoIndex Wednesday = 2"
| "isoIndex Thursday = 3"
| "isoIndex Friday = 4"
| "isoIndex Saturday = 5"
| "isoIndex Sunday = 6"

text \<open>
  \<^verbatim>\<open>new Intl.DateTimeFormat('en', { timeZone: tz, weekday: 'narrow' }).format(d)\<close>:
  the one-letter English name of the weekday of \<^verbatim>\<open>d\<close> as seen in \<^verbatim>\<open>tz\<close>.
\<close>

fun narrowName :: "Weekday \<Rightarrow> string" where
  "narrowName Monday = ''M''"
| "narrowName Tuesday = ''T''"
| "narrowName Wednesday = ''W''"
| "narrowName Thursday = ''T''"
| "narrowName Friday = ''F''"
| "narrowName Saturday = ''S''"
| "narrowName Sunday = ''S''"

definition formatNarrowWeekday :: "TzDb \<Rightarrow> TimezoneId \<Rightarrow> Instant \<Rightarrow> string" where
  "formatNarrowWeekday db tz d = narrowName (zonedWeekday (db tz) d)"

text \<open>\<^verbatim>\<open>Array.prototype.indexOf\<close>: the first index of the element, or -1.\<close>

fun indexOf :: "'a list \<Rightarrow> 'a \<Rightarrow> int" where
  "indexOf [] x = -1"
| "indexOf (y # ys) x =
     (if y = x then 0 else (let k = indexOf ys x in if k < 0 then -1 else k + 1))"

definition weekDays :: "string list" where
  "weekDays = [''M'', ''T'', ''W'', ''T'', ''F'', ''S'', ''S'']"

text \<open>
  \<^verbatim>\<open>startIndex\<close> of the component, from \<^verbatim>\<open>firstDay = calendarDays[0]\<close>, and the number
  of blank cells \<^verbatim>\<open>Array.from({ length: startIndex })\<close> renders before the days
  (a negative length gives an empty array).
\<close>

definition startIndex :: "TzDb \<Rightarrow> TimezoneId \<Rightarrow> Instant \<Rightarrow> int" where
  "startIndex db tz firstDay =
     (let firstDayOfWeek = formatNarrowWeekday db tz firstDay
      in indexOf weekDays firstDayOfWeek)"

definition leadingBlanks :: "TzDb \<Rightarrow> TimezoneId \<Rightarrow> Instant \<Rightarrow> nat" where
  "leadingBlanks db tz firstDay = nat (startIndex db tz firstDay)"

section \<open>Constraints, validation and disabled dates\<close>

text \<open>
  Modelled from the spec: \<^verbatim>\<open>Constraints\<close> (\<^verbatim>\<open>./types\<close>, not among the sources),
  section 3 of the spec: \<^verbatim>\<open>{min: Instant | absent, max: Instant | absent, blackouts:
  set of calendar dates (zone-relative), minDuration: duration | absent, maxDuration:
  duration | absent}\<close>. Durations are in milliseconds, as in the stories.
\<close>

record Constraints =
  min' :: "Instant option"
  max' :: "Instant option"
  blackouts :: "CalendarDate list"
  minDuration :: "int option"
  maxDuration :: "int option"

datatype Violation = BelowMinimum | AboveMaximum | ContainsBlackout | TooShort | TooLong

datatype Validation = Ok | Violation Violation

text \<open>
  Modelled from the spec: the rules of \<^verbatim>\<open>validate\<close> (section 4.3), whose code
  (\<^verbatim>\<open>validateRange\<close> of \<^verbatim>\<open>./utils\<close>) is not among the sources.
  Rule 2: \<^verbatim>\<open>constraints.min\<close> present and \<^verbatim>\<open>start < min\<close>.
\<close>

definition belowMinimum :: "Constraints \<Rightarrow> Instant \<Rightarrow> bool" where
  "belowMinimum cs s = (case min' cs of Some m \<Rightarrow> s < m | None \<Rightarrow> False)"

text \<open>Modelled from the spec: rule 3, \<^verbatim>\<open>constraints.max\<close> present and \<^verbatim>\<open>end > max\<close>.\<close>

definition aboveMaximum :: "Constraints \<Rightarrow> Instant \<Rightarrow> bool" where
  "aboveMaximum cs e = (case max' cs of Some m \<Rightarrow> e > m | None \<Rightarrow> False)"

text \<open>
  Modelled from the spec: rule 4, a date of \<^verbatim>\<open>constraints.blackouts\<close> falls within
  [start, end] inclusive, compared by zoned calendar date. The spec's signature does
  not say in which zone; the zone is an argument.
\<close>

definition containsBlackout :: "Zone \<Rightarrow> Constraints \<Rightarrow> Instant \<Rightarrow> Instant \<Rightarrow> bool" where
  "containsBlackout z cs s e =
     (\<exists>b \<in> set (blackouts cs). zonedDate z s \<le> b \<and> b \<le> zonedDate z e)"

text \<open>
  Modelled from the spec: rule 5, \<^verbatim>\<open>constraints.minDuration\<close> present and
  \<^verbatim>\<open>(end - start) < minDuration\<close>.
\<close>

definition tooShort :: "Constraints \<Rightarrow> Instant \<Rightarrow> Instant \<Rightarrow> bool" where
  "tooShort cs s e = (case minDuration cs of Some d \<Rightarrow> e - s < d | None \<Rightarrow> False)"

text \<open>
  Modelled from the spec: rule 6, \<^verbatim>\<open>constraints.maxDuration\<close> present and
  \<^verbatim>\<open>(end - start) > maxDuration\<close>.
\<close>

definition tooLong :: "Constraints \<Rightarrow> Instant \<Rightarrow> Instant \<Rightarrow> bool" where
  "tooLong cs s e = (case maxDuration cs of Some d \<Rightarrow> e - s > d | None \<Rightarrow> False)"

text \<open>
  Modelled from the spec: \<^verbatim>\<open>validate(start, end, constraints)\<close> of section 4.3, the
  rules in their fixed order, the first violation winning; rule 1 (an absent end point
  gives Ok) comes first.
\<close>

definition validate ::
  "Zone \<Rightarrow> Instant option \<Rightarrow> Instant option \<Rightarrow> Constraints \<Rightarrow> Validation" where
  "validate z start_opt end_opt cs =
     (case start_opt of
        None \<Rightarrow> Ok
      | Some s \<Rightarrow>
          (case end_opt of
             None \<Rightarrow> Ok
           | Some e \<Rightarrow>
               if belowMinimum cs s then Violation BelowMinimum
               else if aboveMaximum cs e then Violation AboveMaximum
               else if containsBlackout z cs s e then Violation ContainsBlackout
               else if tooShort cs s e then Violation TooShort
               else if tooLong cs s e then Violation TooLong
               else Ok))"

text \<open>
  Modelled from the spec: \<^verbatim>\<open>validateRange(start, end, constraints)\<close> as the component
  calls it, with its optional \<^verbatim>\<open>constraints\<close> prop (no constraints, no rule) and
  \<^verbatim>\<open>null\<close> for Ok. The violation stands for its message.
\<close>

definition validateRange_spec ::
  "Zone \<Rightarrow> Instant option \<Rightarrow> Instant option \<Rightarrow> Constraints option \<Rightarrow> Violation option" where
  "validateRange_spec z start_opt end_opt constraints =
     (case constraints of
        None \<Rightarrow> None
      | Some cs \<Rightarrow>
          (case validate z start_opt end_opt cs of Ok \<Rightarrow> None | Violation k \<Rightarrow> Some k))"

text \<open>
  Modelled from the spec: \<^verbatim>\<open>isDateDisabled(date, constraints, tz)\<close> of \<^verbatim>\<open>./utils\<close>
  (not among the sources), section 4.4: a date is disabled if it is before
  \<^verbatim>\<open>constraints.min\<close>, after \<^verbatim>\<open>constraints.max\<close>, or in \<^verbatim>\<open>constraints.blackouts\<close>
  (compared by zoned calendar date).
\<close>

definition isDateDisabled_spec ::
  "TzDb \<Rightarrow> Instant \<Rightarrow> Constraints option \<Rightarrow> TimezoneId \<Rightarrow> bool" where
  "isDateDisabled_spec db date constraints tz =
     (case constraints of
        None \<Rightarrow> False
      | Some cs \<Rightarrow>
          (case min' cs of Some m \<Rightarrow> date < m | None \<Rightarrow> False) \<or>
          (case max' cs of Some m \<Rightarrow> date > m | None \<Rightarrow> False) \<or>
          zonedDate (db tz) date \<in> set (blackouts cs))"

section \<open>Concrete zones, constraints and presets\<close>

text \<open>
  The three zones the component's \<^verbatim>\<open>select\<close> offers, with the offsets of the IANA
  database for the instants of the year 2023 (New York: UTC-4 from 2023-03-12T07:00Z
  to 2023-11-05T06:00Z, else UTC-5; London: UTC+1 from 2023-03-26T01:00Z to
  2023-10-29T01:00Z, else UTC; Tokyo: UTC+9). Any other identifier reads as UTC.
\<close>

definition newYork2023 :: Zone where
  "newYork2023 i =
     (if 1678604400000 \<le> i \<and> i < 1699164000000 then - 14400000 else - 18000000)"

definition london2023 :: Zone where
  "london2023 i = (if 1679792400000 \<le> i \<and> i < 1698541200000 then 3600000 else 0)"

definition tokyo :: Zone where
  "tokyo i = 32400000"

definition utc :: Zone where
  "utc i = 0"

definition tzdb2023 :: TzDb where
  "tzdb2023 tz =
     (if tz = ''America/New_York'' then newYork2023
      else if tz = ''Europe/London'' then london2023
      else if tz = ''Asia/Tokyo'' then tokyo
      else utc)"

text \<open>
  The constraints of the stories, \<^verbatim>\<open>min: subDays(new Date(), 30), max: new Date(),
  blackouts: [new Date(2023, 10, 11)], minDuration: 1 hour, maxDuration: 7 days\<close>, for a
  module loaded at \<open>t0\<close>. 2023-11-11 is day 19672.
\<close>

definition storyConstraints :: "Instant \<Rightarrow> Constraints" where
  "storyConstraints t0 =
     \<lparr>min' = Some (t0 - 30 * msPerDay), max' = Some t0, blackouts = [19672],
      minDuration = Some 3600000, maxDuration = Some (7 * msPerDay)\<rparr>"

text \<open>
  The presets of the stories, \<^verbatim>\<open>start: subDays(now, n), end: now\<close>, on a host whose
  own zone has no offset change in those days (a day is then 86400000 ms).
\<close>

definition last24Hours :: Preset where
  "last24Hours = \<lparr>label = ''Last 24 hours'', getRange = (\<lambda>now tz. (now - msPerDay, now))\<rparr>"

definition last7Days :: Preset where
  "last7Days = \<lparr>label = ''Last 7 days'', getRange = (\<lambda>now tz. (now - 7 * msPerDay, now))\<rparr>"

text \<open>\<^verbatim>\<open>defaultValue\<close> of the stories.\<close>

definition defaultValue :: DateTimeRange where
  "defaultValue = \<lparr>start = None, end' = None, timezone = ''America/New_York''\<rparr>"

text \<open>
  A load time for the stories' module: 2023-06-10T00:00:00Z.
\<close>

definition storyLoadTime :: Instant where
  "storyLoadTime = 1686355200000"

text \<open>
  The initial value of the story \<^verbatim>\<open>InvalidRange\<close>:
  \<^verbatim>\<open>start: new Date(), end: subDays(new Date(), 10)\<close>.
\<close>

definition invalidRange :: DateTimeRange where
  "invalidRange =
     \<lparr>start = Some storyLoadTime, end' = Some (storyLoadTime - 10 * msPerDay),
      timezone = ''America/New_York''\<rparr>"

text \<open>
  The story \<^verbatim>\<open>Default\<close>, one minute after the module was loaded: a click on the
  preset \<^verbatim>\<open>Last 24 hours\<close> in the freshly mounted component.
\<close>

definition presetScenario :: "Violation PickerState \<times> DateTimeRange option" where
  "presetScenario =
     handlePresetSelect (storyLoadTime + 60000) defaultValue initialState last24Hours"

text \<open>Constraints with the blackout date 2023-11-11 (day 19672) and nothing else.\<close>

definition blackoutOnly :: Constraints where
  "blackoutOnly =
     \<lparr>min' = None, max' = None, blackouts = [19672], minDuration = None,
      maxDuration = None\<rparr>"

section \<open>Evaluation of the concrete values\<close>

lemmas fixture_defs = storyLoadTime_def invalidRange_def storyConstraints_def msPerDay_def
  defaultValue_def tzdb2023_def newYork2023_def london2023_def tokyo_def utc_def
  last24Hours_def last7Days_def initialState_def

lemmas spec_defs = isDateDisabled_spec_def validateRange_spec_def validate_def
  belowMinimum_def aboveMaximum_def containsBlackout_def tooShort_def tooLong_def
  zonedDate_def

section \<open>Date clicks\<close>

lemma handleDateSelect_disabled:
  "isDateDisabled date constraints (timezone v) \<Longrightarrow>
   handleDateSelect isDateDisabled validateRange constraints v st date = (st, None)"
  by (simp add: handleDateSelect_def)

lemma handleDateSelect_emits:
  "snd (handleDateSelect isDateDisabled validateRange constraints v st date) =
   snd (handleDateSelect isDateDisabled validateRange constraints v st' date)"
  by (simp add: handleDateSelect_def Let_def split: prod.splits)

lemma selectDate_disabled:
  "isDateDisabled date constraints (timezone v) \<Longrightarrow>
   selectDate isDateDisabled validateRange constraints v date = v"
  by (simp add: selectDate_def handleDateSelect_def nextValue_def)

lemma selectDate_enabled:
  "\<not> isDateDisabled date constraints (timezone v) \<Longrightarrow>
   selectDate isDateDisabled validateRange constraints v date =
     (if start v = None \<or> (start v \<noteq> None \<and> end' v \<noteq> None)
      then v\<lparr>start := Some date, end' := None\<rparr>
      else if (case start v of Some s \<Rightarrow> date < s | None \<Rightarrow> False)
           then v\<lparr>start := Some date, end' := start v\<rparr>
           else v\<lparr>start := start v, end' := Some date\<rparr>)"
  by (cases "start v"; cases "end' v")
     (simp_all add: selectDate_def handleDateSelect_def nextValue_def isBefore_def Let_def)

lemma selectDate_timezone:
  "timezone (selectDate isDateDisabled validateRange constraints v date) = timezone v"
  by (cases "isDateDisabled date constraints (timezone v)")
     (simp_all add: selectDate_disabled selectDate_enabled)

lemma selectDate_enabled_ordered:
  "\<not> isDateDisabled date constraints (timezone v) \<Longrightarrow>
   ordered (selectDate isDateDisabled validateRange constraints v date)"
  by (auto simp add: selectDate_enabled ordered_def split: option.splits)

lemma selectDate_ordered:
  "ordered v \<Longrightarrow> ordered (selectDate isDateDisabled validateRange constraints v date)"
  by (cases "isDateDisabled date constraints (timezone v)")
     (simp_all add: selectDate_disabled selectDate_enabled_ordered)

lemma selectDates_timezone:
  "timezone (selectDates isDateDisabled validateRange constraints v dates) = timezone v"
  by (induction dates arbitrary: v) (simp_all add: selectDate_timezone)

lemma selectDates_ordered:
  "ordered v \<Longrightarrow> ordered (selectDates isDateDisabled validateRange constraints v dates)"
  by (induction dates arbitrary: v) (simp_all add: selectDate_ordered)

text \<open>
  One click on a date that is not disabled is enough: whatever the range was before,
  the click leaves it ordered, and the later clicks keep it so. The zone of the range
  does not change along the way, so "disabled" is read in the zone of the first range.
\<close>

lemma selectDates_enabled_ordered:
  "\<exists>d \<in> set dates. \<not> isDateDisabled d constraints (timezone v) \<Longrightarrow>
   ordered (selectDates isDateDisabled validateRange constraints v dates)"
proof (induction dates arbitrary: v)
  case Nil
  then show ?case by simp
next
  case (Cons d ds)
  show ?case
  proof (cases "isDateDisabled d constraints (timezone v)")
    case True
    with Cons.prems have "\<exists>d \<in> set ds. \<not> isDateDisabled d constraints (timezone v)"
      by auto
    then show ?thesis
      using Cons.IH [of v] True by (simp add: selectDate_disabled)
  next
    case False
    then have "ordered (selectDate isDateDisabled validateRange constraints v d)"
      by (rule selectDate_enabled_ordered)
    then show ?thesis by (simp add: selectDates_ordered)
  qed
qed

text \<open>
  C3, as the claim states it, fails: it speaks of every initial range and every
  sequence of clicks. The range of the story \<^verbatim>\<open>InvalidRange\<close> has its start ten days
  after its end; after no click at all, and after a click on a disabled date (the day
  after \<^verbatim>\<open>constraints.max\<close>), the range is that same range, with both ends present
  and start after end.
\<close>

theorem ordering_counterexample:
  "selectDates (isDateDisabled_spec tzdb2023) (validateRange_spec newYork2023)
     (Some (storyConstraints storyLoadTime)) invalidRange [] = invalidRange \<and>
   selectDates (isDateDisabled_spec tzdb2023) (validateRange_spec newYork2023)
     (Some (storyConstraints storyLoadTime)) invalidRange [storyLoadTime + msPerDay]
     = invalidRange \<and>
   start invalidRange = Some 1686355200000 \<and>
   end' invalidRange = Some 1685491200000 \<and>
   \<not> ordered invalidRange"
  by (simp add: selectDate_def handleDateSelect_def nextValue_def ordered_def spec_defs
      fixture_defs)

text \<open>
  C3, amended: if the initial range is ordered (start not after end when both are
  present), or if at least one date of the sequence is not disabled, then the range
  after the sequence of date clicks is ordered. And a click on a date that is not
  disabled and lies before the start of a range with a start and no end gives the
  swapped pair: the clicked date is the start, the former start is the end.
\<close>

theorem ordering_after_date_clicks:
  "(ordered v \<or> (\<exists>d \<in> set dates. \<not> isDateDisabled d constraints (timezone v)) \<longrightarrow>
      ordered (selectDates isDateDisabled validateRange constraints v dates)) \<and>
   (start v = Some s \<and> end' v = None \<and> date < s \<and>
    \<not> isDateDisabled date constraints (timezone v) \<longrightarrow>
      selectDate isDateDisabled validateRange constraints v date =
        v\<lparr>start := Some date, end' := Some s\<rparr>)"
  using selectDates_ordered [of v isDateDisabled validateRange constraints dates]
    selectDates_enabled_ordered [of dates isDateDisabled constraints v validateRange]
  by (auto simp add: selectDate_enabled)

text \<open>
  Witness of C3. First part: from the unordered range of the story \<^verbatim>\<open>InvalidRange\<close>,
  a click on a disabled date, then clicks on 2023-06-08 and 2023-06-05, give the
  ordered range from 2023-06-05 to 2023-06-08. Second part, the swap scenario of the
  spec: with start 2023-06-10 and no end, a click on 2023-06-05 gives start 2023-06-05
  and end 2023-06-10.
\<close>

theorem ordering_after_date_clicks_witness:
  "(\<exists>d \<in> set [storyLoadTime + msPerDay, storyLoadTime - 2 * msPerDay,
               storyLoadTime - 5 * msPerDay].
      \<not> isDateDisabled_spec tzdb2023 d (Some (storyConstraints storyLoadTime))
           (timezone invalidRange)) \<and>
   ordered (selectDates (isDateDisabled_spec tzdb2023) (validateRange_spec newYork2023)
     (Some (storyConstraints storyLoadTime)) invalidRange
     [storyLoadTime + msPerDay, storyLoadTime - 2 * msPerDay,
      storyLoadTime - 5 * msPerDay]) \<and>
   selectDates (isDateDisabled_spec tzdb2023) (validateRange_spec newYork2023)
     (Some (storyConstraints storyLoadTime)) invalidRange
     [storyLoadTime + msPerDay, storyLoadTime - 2 * msPerDay,
      storyLoadTime - 5 * msPerDay]
     = \<lparr>start = Some 1685923200000, end' = Some 1686182400000,
        timezone = ''America/New_York''\<rparr> \<and>
   selectDate (isDateDisabled_spec tzdb2023) (validateRange_spec newYork2023) None
     \<lparr>start = Some 1686355200000, end' = None, timezone = ''America/New_York''\<rparr>
     1685923200000
     = \<lparr>start = Some 1685923200000, end' = Some 1686355200000,
        timezone = ''America/New_York''\<rparr>"
proof -
  let ?dis = "isDateDisabled_spec tzdb2023"
  let ?vr = "validateRange_spec newYork2023"
  let ?cs = "Some (storyConstraints storyLoadTime)"
  let ?ds = "[storyLoadTime + msPerDay, storyLoadTime - 2 * msPerDay,
              storyLoadTime - 5 * msPerDay]"
  let ?p = "\<lparr>start = Some 1686355200000, end' = None, timezone = ''America/New_York''\<rparr>"
  have enabled: "\<exists>d \<in> set ?ds. \<not> ?dis d ?cs (timezone invalidRange)"
    by (simp add: spec_defs fixture_defs)
  have partial: "start ?p = Some 1686355200000 \<and> end' ?p = None \<and>
      (1685923200000 :: int) < 1686355200000 \<and> \<not> ?dis 1685923200000 None (timezone ?p)"
    by (simp add: spec_defs)
  have a: "ordered (selectDates ?dis ?vr ?cs invalidRange ?ds)"
    using ordering_after_date_clicks [of invalidRange ?ds ?dis ?cs ?vr] enabled by blast
  have b: "selectDate ?dis ?vr None ?p 1685923200000 =
      ?p\<lparr>start := Some 1685923200000, end' := Some 1686355200000\<rparr>"
    using ordering_after_date_clicks [of ?p _ ?dis None ?vr 1686355200000 1685923200000]
      partial by blast
  have c: "selectDates ?dis ?vr ?cs invalidRange ?ds =
      \<lparr>start = Some 1685923200000, end' = Some 1686182400000,
        timezone = ''America/New_York''\<rparr>"
    by (simp add: selectDate_def handleDateSelect_def nextValue_def isBefore_def spec_defs
      fixture_defs)
  from enabled a b c show ?thesis by simp
qed

text \<open>
  C8: from a range with no start, or with both start and end, a click on a date that
  is not disabled gives the range whose start is the clicked date and whose end is
  absent; the former range is discarded (the timezone stays).
\<close>

theorem select_from_empty_or_complete:
  "\<not> isDateDisabled date constraints (timezone v) \<Longrightarrow>
   start v = None \<or> (start v \<noteq> None \<and> end' v \<noteq> None) \<Longrightarrow>
   selectDate isDateDisabled validateRange constraints v date =
     v\<lparr>start := Some date, end' := None\<rparr>"
  by (simp add: selectDate_enabled)

text \<open>
  Witness of C8, under the constraints of the stories: a click on 2023-06-09 from the
  empty \<^verbatim>\<open>defaultValue\<close>, and a click on 2023-06-09 from the complete range of the
  story \<^verbatim>\<open>InvalidRange\<close>.
\<close>

theorem select_from_empty_or_complete_witness:
  "\<not> isDateDisabled_spec tzdb2023 1686268800000 (Some (storyConstraints storyLoadTime))
       ''America/New_York'' \<and>
   start defaultValue = None \<and>
   selectDate (isDateDisabled_spec tzdb2023) (validateRange_spec newYork2023)
     (Some (storyConstraints storyLoadTime)) defaultValue 1686268800000
     = \<lparr>start = Some 1686268800000, end' = None, timezone = ''America/New_York''\<rparr> \<and>
   start invalidRange = Some 1686355200000 \<and>
   end' invalidRange = Some 1685491200000 \<and>
   selectDate (isDateDisabled_spec tzdb2023) (validateRange_spec newYork2023)
     (Some (storyConstraints storyLoadTime)) invalidRange 1686268800000
     = \<lparr>start = Some 1686268800000, end' = None, timezone = ''America/New_York''\<rparr>"
proof -
  let ?dis = "isDateDisabled_spec tzdb2023"
  let ?vr = "validateRange_spec newYork2023"
  let ?cs = "Some (storyConstraints storyLoadTime)"
  have enabled: "\<not> ?dis 1686268800000 ?cs ''America/New_York''"
    by (simp add: spec_defs fixture_defs)
  have tz: "timezone defaultValue = ''America/New_York''"
      "timezone invalidRange = ''America/New_York''"
    by (simp_all add: fixture_defs)
  have empty: "start defaultValue = None"
    by (simp add: fixture_defs)
  have complete: "start invalidRange = Some 1686355200000"
      "end' invalidRange = Some 1685491200000"
    by (simp_all add: fixture_defs)
  have a: "selectDate ?dis ?vr ?cs defaultValue 1686268800000 =
      defaultValue\<lparr>start := Some 1686268800000, end' := None\<rparr>"
    using select_from_empty_or_complete [of ?dis 1686268800000 ?cs defaultValue ?vr]
      enabled tz empty by simp
  have b: "selectDate ?dis ?vr ?cs invalidRange 1686268800000 =
      invalidRange\<lparr>start := Some 1686268800000, end' := None\<rparr>"
    using select_from_empty_or_complete [of ?dis 1686268800000 ?cs invalidRange ?vr]
      enabled tz complete by simp
  from enabled empty complete a b show ?thesis
    by (simp add: defaultValue_def invalidRange_def)
qed

text \<open>
  C9: a click on a disabled date is a silent no-op. \<^verbatim>\<open>handleDateSelect\<close> returns
  before it writes a state cell (the error cell included) and before it calls
  \<^verbatim>\<open>onChange\<close>, so the range stays as it was: start, end and timezone.
\<close>

theorem disabled_click_is_noop:
  "isDateDisabled date constraints (timezone v) \<Longrightarrow>
   handleDateSelect isDateDisabled validateRange constraints v st date = (st, None) \<and>
   selectDate isDateDisabled validateRange constraints v date = v"
  by (simp add: handleDateSelect_disabled selectDate_disabled)

text \<open>The disabled dates of the spec, spelled out.\<close>

lemma isDateDisabled_spec_iff:
  "isDateDisabled_spec db date (Some cs) tz \<longleftrightarrow>
     (\<exists>m. min' cs = Some m \<and> date < m) \<or>
     (\<exists>m. max' cs = Some m \<and> m < date) \<or>
     zonedDate (db tz) date \<in> set (blackouts cs)"
  by (cases "min' cs"; cases "max' cs") (simp_all add: isDateDisabled_spec_def)

text \<open>
  Witness of C9, with the disabled dates of the spec: a date before \<^verbatim>\<open>constraints.min\<close>,
  a date after \<^verbatim>\<open>constraints.max\<close>, and 2023-11-12T02:00Z, which is in New York still
  the blackout date 2023-11-11 (in UTC it is the day after).
\<close>

theorem disabled_click_is_noop_witness:
  "isDateDisabled_spec tzdb2023 (storyLoadTime - 31 * msPerDay)
     (Some (storyConstraints storyLoadTime)) (timezone invalidRange) \<and>
   handleDateSelect (isDateDisabled_spec tzdb2023) (validateRange_spec newYork2023)
     (Some (storyConstraints storyLoadTime)) invalidRange initialState
     (storyLoadTime - 31 * msPerDay) = (initialState, None) \<and>
   isDateDisabled_spec tzdb2023 (storyLoadTime + msPerDay)
     (Some (storyConstraints storyLoadTime)) (timezone invalidRange) \<and>
   selectDate (isDateDisabled_spec tzdb2023) (validateRange_spec newYork2023)
     (Some (storyConstraints storyLoadTime)) invalidRange (storyLoadTime + msPerDay)
     = invalidRange \<and>
   zonedDate utc 1699754400000 = 19673 \<and>
   zonedDate (tzdb2023 (timezone defaultValue)) 1699754400000 = 19672 \<and>
   isDateDisabled_spec tzdb2023 1699754400000 (Some blackoutOnly) (timezone defaultValue) \<and>
   handleDateSelect (isDateDisabled_spec tzdb2023) (validateRange_spec newYork2023)
     (Some blackoutOnly) defaultValue initialState 1699754400000 = (initialState, None) \<and>
   selectDate (isDateDisabled_spec tzdb2023) (validateRange_spec newYork2023)
     (Some blackoutOnly) defaultValue 1699754400000 = defaultValue"
proof -
  let ?dis = "isDateDisabled_spec tzdb2023"
  let ?vr = "validateRange_spec newYork2023"
  let ?cs = "Some (storyConstraints storyLoadTime)"
  have before_min: "?dis (storyLoadTime - 31 * msPerDay) ?cs (timezone invalidRange)"
    by (simp add: spec_defs fixture_defs)
  have after_max: "?dis (storyLoadTime + msPerDay) ?cs (timezone invalidRange)"
    by (simp add: spec_defs fixture_defs)
  have dates: "zonedDate utc 1699754400000 = 19673"
      "zonedDate (tzdb2023 (timezone defaultValue)) 1699754400000 = 19672"
    by (simp_all add: spec_defs fixture_defs)
  have blackout: "?dis 1699754400000 (Some blackoutOnly) (timezone defaultValue)"
    by (simp add: spec_defs fixture_defs blackoutOnly_def)
  note a = disabled_click_is_noop [of ?dis _ ?cs invalidRange ?vr initialState, OF before_min]
  note b = disabled_click_is_noop [of ?dis _ ?cs invalidRange ?vr initialState, OF after_max]
  note c = disabled_click_is_noop [of ?dis _ "Some blackoutOnly" defaultValue ?vr initialState,
      OF blackout]
  from before_min after_max dates blackout a b c show ?thesis by simp
qed

section \<open>The Apply button\<close>

text \<open>
  After a date click that reaches \<^verbatim>\<open>onChange\<close>, and after a time edit, the error cell
  is \<^verbatim>\<open>validateRange\<close> of the range just handed to \<^verbatim>\<open>onChange\<close>: the button is
  enabled exactly when that range has both ends and validates.
\<close>

lemma date_click_recomputes_gate:
  "handleDateSelect isDateDisabled validateRange constraints v st date = (st', Some v') \<Longrightarrow>
   error st' = validateRange (start v') (end' v') constraints \<and>
   (applyDisabled st' v' \<longleftrightarrow>
      \<not> (\<exists>s e. start v' = Some s \<and> end' v' = Some e \<and>
             validateRange (Some s) (Some e) constraints = None))"
  by (cases "start v"; cases "end' v")
     (auto simp add: handleDateSelect_def applyDisabled_def hasError_def Let_def
       split: if_splits option.splits)

lemma time_edit_recomputes_gate:
  "handleTimeChange utcToZonedTime setHours zonedTimeToUtc validateRange constraints
     v st ty field val = (st', emitted) \<Longrightarrow>
   (\<exists>v'. emitted = Some v' \<and> timezone v' = timezone v \<and>
      error st' = validateRange (start v') (end' v') constraints \<and>
      (applyDisabled st' v' \<longleftrightarrow>
        \<not> (\<exists>s e. start v' = Some s \<and> end' v' = Some e \<and>
             validateRange (Some s) (Some e) constraints = None)))"
  by (cases ty; cases "start v"; cases "end' v")
     (auto simp add: handleTimeChange_def applyDisabled_def hasError_def Let_def
       split: if_splits option.splits)

text \<open>
  A preset click does not: it clears the error cell and hands a range with both ends
  to \<^verbatim>\<open>onChange\<close>, so the button is enabled whatever the constraints are.
\<close>

lemma preset_click_enables_apply:
  "handlePresetSelect now v st preset = (st', emitted) \<Longrightarrow>
   error st' = None \<and>
   emitted = Some (v\<lparr>start := Some (fst (getRange preset now (timezone v))),
                     end' := Some (snd (getRange preset now (timezone v)))\<rparr>) \<and>
   \<not> applyDisabled st' (nextValue v emitted)"
  by (auto simp add: handlePresetSelect_def applyDisabled_def hasError_def nextValue_def
      split: prod.splits)

text \<open>The timezone \<^verbatim>\<open>select\<close> leaves the error cell as the last handler wrote it.\<close>

lemma timezone_change_keeps_error:
  "timezoneSelect_onChange v st tz = (st', emitted) \<Longrightarrow> st' = st"
  by (simp add: timezoneSelect_onChange_def)

text \<open>
  C1 fails on the code. In the story \<^verbatim>\<open>Default\<close>, \<^verbatim>\<open>constraints.max\<close> is the load time
  of the module. A click on the preset \<^verbatim>\<open>Last 24 hours\<close> one minute later gives a range
  that ends one minute after \<^verbatim>\<open>constraints.max\<close>: \<^verbatim>\<open>validate\<close> answers AboveMaximum,
  and the Apply button is enabled.
\<close>

theorem apply_enabled_after_invalid_preset:
  "\<not> applyDisabled (fst presetScenario) (nextValue defaultValue (snd presetScenario)) \<and>
   nextValue defaultValue (snd presetScenario) =
     \<lparr>start = Some 1686268860000, end' = Some 1686355260000,
      timezone = ''America/New_York''\<rparr> \<and>
   validate newYork2023 (Some 1686268860000) (Some 1686355260000)
     (storyConstraints storyLoadTime) = Violation AboveMaximum"
  by (simp add: presetScenario_def handlePresetSelect_def applyDisabled_def hasError_def
      nextValue_def spec_defs fixture_defs)

section \<open>The leading blanks of the month grid\<close>

text \<open>
  \<^verbatim>\<open>weekDays\<close> holds the letter T twice and the letter S twice, and \<^verbatim>\<open>indexOf\<close>
  finds the first: Thursday is found at Tuesday's place, Sunday at Saturday's.
\<close>

lemma indexOf_weekDays:
  "indexOf weekDays (narrowName w) =
     (if w = Thursday then 1 else if w = Sunday then 5 else isoIndex w)"
  by (cases w) (simp_all add: weekDays_def)

lemma startIndex_eq:
  "startIndex db tz firstDay =
     (if zonedWeekday (db tz) firstDay = Thursday then 1
      else if zonedWeekday (db tz) firstDay = Sunday then 5
      else isoIndex (zonedWeekday (db tz) firstDay))"
  by (simp add: startIndex_def formatNarrowWeekday_def indexOf_weekDays)

text \<open>
  C2 fails on the code. June 2023 in Asia/Tokyo: the first day, 2023-06-01T00:00+09:00,
  is a Thursday, whose Monday-first index is 3; the component renders 1 blank cell.
  October 2023 in Europe/London: the first day, 2023-10-01T00:00+01:00, is a Sunday
  (index 6); the component renders 5 blank cells.
\<close>

theorem startIndex_thursday:
  "zonedWeekday (tzdb2023 ''Asia/Tokyo'') 1685545200000 = Thursday \<and>
   isoIndex (zonedWeekday (tzdb2023 ''Asia/Tokyo'') 1685545200000) = 3 \<and>
   startIndex tzdb2023 ''Asia/Tokyo'' 1685545200000 = 1 \<and>
   leadingBlanks tzdb2023 ''Asia/Tokyo'' 1685545200000 = 1 \<and>
   zonedWeekday (tzdb2023 ''Europe/London'') 1696114800000 = Sunday \<and>
   startIndex tzdb2023 ''Europe/London'' 1696114800000 = 5"
  by (simp add: startIndex_def leadingBlanks_def formatNarrowWeekday_def weekDays_def
      zonedWeekday_def weekdayOf_def zonedDate_def tzdb2023_def tokyo_def london2023_def
      msPerDay_def)

section \<open>Validation\<close>

text \<open>
  C7: \<^verbatim>\<open>validate\<close> answers Ok when start or end is absent, whatever the constraints;
  for a range with both ends it answers the violation of the first rule that is
  violated, in the order BelowMinimum, AboveMaximum, ContainsBlackout, TooShort,
  TooLong, and Ok exactly when no rule is violated.
\<close>

theorem validate_first_violation_wins:
  "validate z None end_opt cs = Ok \<and>
   validate z start_opt None cs = Ok \<and>
   (validate z (Some s) (Some e) cs = Violation BelowMinimum \<longleftrightarrow> belowMinimum cs s) \<and>
   (validate z (Some s) (Some e) cs = Violation AboveMaximum \<longleftrightarrow>
      \<not> belowMinimum cs s \<and> aboveMaximum cs e) \<and>
   (validate z (Some s) (Some e) cs = Violation ContainsBlackout \<longleftrightarrow>
      \<not> belowMinimum cs s \<and> \<not> aboveMaximum cs e \<and> containsBlackout z cs s e) \<and>
   (validate z (Some s) (Some e) cs = Violation TooShort \<longleftrightarrow>
      \<not> belowMinimum cs s \<and> \<not> aboveMaximum cs e \<and> \<not> containsBlackout z cs s e \<and>
      tooShort cs s e) \<and>
   (validate z (Some s) (Some e) cs = Violation TooLong \<longleftrightarrow>
      \<not> belowMinimum cs s \<and> \<not> aboveMaximum cs e \<and> \<not> containsBlackout z cs s e \<and>
      \<not> tooShort cs s e \<and> tooLong cs s e) \<and>
   (validate z (Some s) (Some e) cs = Ok \<longleftrightarrow>
      \<not> belowMinimum cs s \<and> \<not> aboveMaximum cs e \<and> \<not> containsBlackout z cs s e \<and>
      \<not> tooShort cs s e \<and> \<not> tooLong cs s e)"
  by (cases start_opt) (simp_all add: validate_def)

text \<open>
  The two scenarios of the spec: the blackout 2023-11-11 in America/New_York lies in
  the range from 2023-11-10T00:00Z to 2023-11-12T00:00Z, and with a minimum duration
  of one hour a range of thirty minutes is too short.
\<close>

lemma validate_spec_scenarios:
  "validate newYork2023 (Some 1699574400000) (Some 1699747200000) blackoutOnly
     = Violation ContainsBlackout \<and>
   validate newYork2023 (Some storyLoadTime) (Some (storyLoadTime + 1800000))
     \<lparr>min' = None, max' = None, blackouts = [], minDuration = Some 3600000,
      maxDuration = None\<rparr> = Violation TooShort"
  by (simp add: spec_defs fixture_defs blackoutOnly_def)

section \<open>The timezone select\<close>

text \<open>
  C10: changing the timezone gives a range with the same start and end instants; only
  the timezone field differs.
\<close>

theorem timezone_change_keeps_instants:
  "start (changeTimezone v tz) = start v \<and>
   end' (changeTimezone v tz) = end' v \<and>
   timezone (changeTimezone v tz) = tz \<and>
   changeTimezone v tz = v\<lparr>timezone := tz\<rparr>"
  by (simp add: changeTimezone_def timezoneSelect_onChange_def nextValue_def)

end
